theory Spec2Isabelle
  imports Main
begin

section \<open>The pixelgun conversion scripts\<close>

text \<open>
  The repository holds two scripts for an image editor's scripting host:
  \<^verbatim>\<open>convert_img(inFile, outFile)\<close> converts one camera RAW file to a TIFF, and
  \<^verbatim>\<open>convert_imgs(sourceDir)\<close> does the same for the entries of a folder, writing
  below its \<^verbatim>\<open>TIFF\<close> subfolder. Decoding, colour management and encoding are
  done by the host; the scripts decide which host calls are made, in which order and
  with which arguments, and how a destination name is derived from a document name.
  The model therefore has two parts: the string functions of the name derivation, and
  the scripts as functions from a host (its answers) to the list of host calls made.
\<close>

subsection \<open>Strings and the name derivation\<close>

text \<open>
  A script string is modelled as a \<^typ>\<open>string\<close>, one element per code unit. The
  derivation only compares code units with \<^verbatim>\<open>/\<close> and \<^verbatim>\<open>.\<close>.

  \<^verbatim>\<open>s.split(sep)\<close> for a one-character separator: the pieces between the
  occurrences of the separator, in order; the empty string gives one empty piece.
  The last equation's \<open>[]\<close> branch is never taken (see \<open>js_split_not_Nil\<close>).
\<close>

fun js_split :: "char \<Rightarrow> string \<Rightarrow> string list" where
  "js_split sep [] = [[]]"
| "js_split sep (c # cs) =
     (if c = sep then [] # js_split sep cs
      else (case js_split sep cs of
              [] \<Rightarrow> [[c]]
            | s # ss \<Rightarrow> (c # s) # ss))"

text \<open>
  \<^verbatim>\<open>a.pop()\<close> gives the last element, and \<^verbatim>\<open>a[0]\<close> the first; on an empty
  array both give \<^verbatim>\<open>undefined\<close>, modelled as \<open>None\<close>.
\<close>

definition pop :: "'a list \<Rightarrow> 'a option" where
  "pop a = (if a = [] then None else Some (last a))"

definition index0 :: "'a list \<Rightarrow> 'a option" where
  "index0 a = (case a of [] \<Rightarrow> None | x # _ \<Rightarrow> Some x)"

text \<open>
  The errors a run can end with: an exception thrown by a host call, the
  \<^verbatim>\<open>URIError\<close> of \<^verbatim>\<open>decodeURI\<close>, and the \<^verbatim>\<open>TypeError\<close> of a property read
  or method call on \<^verbatim>\<open>undefined\<close> or \<^verbatim>\<open>null\<close>.
\<close>

datatype js_error = HostError string | URIError | TypeError

text \<open>
  Line 26 of \<^verbatim>\<open>convert_imgs.js\<close>:
  \<^verbatim>\<open>var baseName = docName.split('/').pop().split('.')[0];\<close>
  Calling \<^verbatim>\<open>split\<close> on \<^verbatim>\<open>undefined\<close> throws; the final \<^verbatim>\<open>[0]\<close> may be
  \<^verbatim>\<open>undefined\<close>.
\<close>

definition baseName :: "string \<Rightarrow> js_error + string option" where
  "baseName docName =
     (case pop (js_split CHR ''/'' docName) of
        None \<Rightarrow> Inl TypeError
      | Some seg \<Rightarrow> Inr (index0 (js_split CHR ''.'' seg)))"

text \<open>String concatenation turns \<^verbatim>\<open>undefined\<close> into the text \<^verbatim>\<open>undefined\<close>.\<close>

definition js_string :: "string option \<Rightarrow> string" where
  "js_string v = (case v of None \<Rightarrow> ''undefined'' | Some s \<Rightarrow> s)"

text \<open>
  Line 28: \<^verbatim>\<open>var outFile = new File(tiffSubFolder + '/' + baseName + '.tif');\<close>
  A file reference is modelled by its path.
\<close>

definition outFile :: "string \<Rightarrow> string option \<Rightarrow> string" where
  "outFile tiffSubFolder b = tiffSubFolder @ ''/'' @ js_string b @ ''.tif''"

text \<open>
  The derivation in the specification's words: the final path segment is what follows
  the last \<^verbatim>\<open>/\<close>; the base name is that segment cut at its first \<^verbatim>\<open>.\<close>; the
  destination file name is the base name with \<^verbatim>\<open>.tif\<close> appended.
\<close>

definition final_segment :: "string \<Rightarrow> string" where
  "final_segment p = rev (takeWhile (\<lambda>c. c \<noteq> CHR ''/'') (rev p))"

definition spec_base :: "string \<Rightarrow> string" where
  "spec_base p = takeWhile (\<lambda>c. c \<noteq> CHR ''.'') (final_segment p)"

definition spec_filename :: "string \<Rightarrow> string" where
  "spec_filename p = spec_base p @ ''.tif''"

subsection \<open>The host's scripting interface\<close>

text \<open>
  Modelled from the spec: the host's enumerations, option objects and folder listing
  are used by the scripts and declared by the host, not in the repository. The members
  the scripts name keep their source names; the other members are the alternatives the
  specification's data model lists (bit depth 8 or 16, compression none or LZW,
  rendering intent perceptual or relative colorimetric), and for closing a document
  the alternatives to not saving.
\<close>

datatype ColorSpaceType = SRGB

datatype BitsPerChannelType = EIGHT | SIXTEEN

datatype TIFFEncoding = NONE | TIFFLZW

datatype Intent = PERCEPTUAL | RELATIVECOLORIMETRIC

datatype SaveOptions = DONOTSAVECHANGES | PROMPTTOSAVECHANGES | SAVECHANGES

text \<open>
  The option objects: a field the script has not assigned is \<open>None\<close> (the host's
  default applies). \<^verbatim>\<open>new CameraRAWOpenOptions()\<close> and \<^verbatim>\<open>new TiffSaveOptions()\<close>
  give objects with no field assigned.
\<close>

record CameraRAWOpenOptions =
  colorSpace :: "ColorSpaceType option"
  bitsPerChannel :: "BitsPerChannelType option"

record TiffSaveOptions =
  embedColorProfile :: "bool option"
  imageCompression :: "TIFFEncoding option"

definition new_CameraRAWOpenOptions :: CameraRAWOpenOptions where
  "new_CameraRAWOpenOptions = \<lparr>colorSpace = None, bitsPerChannel = None\<rparr>"

definition new_TiffSaveOptions :: TiffSaveOptions where
  "new_TiffSaveOptions = \<lparr>embedColorProfile = None, imageCompression = None\<rparr>"

text \<open>
  An entry of a folder listing is a file or a folder, with its path;
  \<^verbatim>\<open>File(fileList[i])\<close> makes a file reference to the entry's path whatever its kind.
\<close>

datatype entry = FileEntry string | FolderEntry string

fun entry_path :: "entry \<Rightarrow> string" where
  "entry_path (FileEntry p) = p"
| "entry_path (FolderEntry p) = p"

text \<open>A document handle, as returned by \<^verbatim>\<open>open\<close>.\<close>

type_synonym doc = nat

text \<open>
  A host call with its arguments and its outcome (\<open>Inl\<close>: the call threw). The
  scripts call \<^verbatim>\<open>Folder(..).getFiles()\<close> (which answers \<^verbatim>\<open>null\<close>, here \<open>None\<close>,
  for a folder that does not exist), \<^verbatim>\<open>open\<close>, \<^verbatim>\<open>doc.convertProfile\<close>,
  \<^verbatim>\<open>doc.saveAs\<close> and \<^verbatim>\<open>doc.close\<close>. \<open>FolderCreate\<close> stands for the host's
  \<^verbatim>\<open>Folder(..).create()\<close>, which neither script calls; it is here so that the
  creation of a folder can be spoken of.
\<close>

datatype event =
    GetFiles string "js_error + entry list option"
  | Open string CameraRAWOpenOptions "js_error + doc"
  | ConvertProfile doc string Intent bool bool "js_error + unit"
  | SaveAs doc string TiffSaveOptions bool "js_error + unit"
  | Close doc SaveOptions "js_error + unit"
  | FolderCreate string "js_error + unit"

text \<open>
  The host is opaque: each of its answers may depend on everything that happened
  before, so every operation is given the calls made so far. \<open>host_name\<close> is the
  property \<^verbatim>\<open>doc.name\<close>, \<open>host_decodeURI\<close> the built-in \<^verbatim>\<open>decodeURI\<close>.
\<close>

record host =
  host_getFiles :: "event list \<Rightarrow> string \<Rightarrow> js_error + entry list option"
  host_open :: "event list \<Rightarrow> string \<Rightarrow> CameraRAWOpenOptions \<Rightarrow> js_error + doc"
  host_name :: "event list \<Rightarrow> doc \<Rightarrow> string"
  host_decodeURI :: "string \<Rightarrow> js_error + string"
  host_convertProfile ::
    "event list \<Rightarrow> doc \<Rightarrow> string \<Rightarrow> Intent \<Rightarrow> bool \<Rightarrow> bool \<Rightarrow> js_error + unit"
  host_saveAs :: "event list \<Rightarrow> doc \<Rightarrow> string \<Rightarrow> TiffSaveOptions \<Rightarrow> bool \<Rightarrow> js_error + unit"
  host_close :: "event list \<Rightarrow> doc \<Rightarrow> SaveOptions \<Rightarrow> js_error + unit"

subsection \<open>The scripts\<close>

text \<open>
  Lines 4 to 11 of both scripts build the same two option objects:
  \<^verbatim>\<open>openOptions.colorSpace = ColorSpaceType.SRGB;\<close>
  \<^verbatim>\<open>openOptions.bitsPerChannel = BitsPerChannelType.SIXTEEN;\<close>
  \<^verbatim>\<open>tiffSaveOptions.embedColorProfile = true;\<close>
  \<^verbatim>\<open>tiffSaveOptions.imageCompression = TIFFEncoding.TIFFLZW;\<close>
\<close>

definition openOptions :: CameraRAWOpenOptions where
  "openOptions =
     new_CameraRAWOpenOptions\<lparr>colorSpace := Some SRGB, bitsPerChannel := Some SIXTEEN\<rparr>"

definition tiffSaveOptions :: TiffSaveOptions where
  "tiffSaveOptions =
     new_TiffSaveOptions\<lparr>embedColorProfile := Some True, imageCompression := Some TIFFLZW\<rparr>"

text \<open>
  A run is the list of calls made, started from the calls \<open>t\<close> made before, and how
  it ended: \<open>Inr ()\<close> when the function returned, \<open>Inl e\<close> when an exception left
  it. Neither script catches anything, so the first exception ends the run.

  \<^verbatim>\<open>convert_img(inFile, outFile)\<close>: open, convertProfile, saveAs, close.
\<close>

definition convert_img ::
  "host \<Rightarrow> string \<Rightarrow> string \<Rightarrow> event list \<Rightarrow> event list \<times> (js_error + unit)" where
  "convert_img h inFile outFile' t =
     (let r1 = host_open h t inFile openOptions;
          t1 = t @ [Open inFile openOptions r1]
      in case r1 of
           Inl e \<Rightarrow> (t1, Inl e)
         | Inr doc \<Rightarrow>
             let r2 = host_convertProfile h t1 doc ''sRGB IEC61966-2.1''
                        RELATIVECOLORIMETRIC True True;
                 t2 = t1 @ [ConvertProfile doc ''sRGB IEC61966-2.1''
                              RELATIVECOLORIMETRIC True True r2]
             in case r2 of
                  Inl e \<Rightarrow> (t2, Inl e)
                | Inr _ \<Rightarrow>
                    let r3 = host_saveAs h t2 doc outFile' tiffSaveOptions True;
                        t3 = t2 @ [SaveAs doc outFile' tiffSaveOptions True r3]
                    in case r3 of
                         Inl e \<Rightarrow> (t3, Inl e)
                       | Inr _ \<Rightarrow>
                           let r4 = host_close h t3 doc DONOTSAVECHANGES
                           in (t3 @ [Close doc DONOTSAVECHANGES r4], r4))"

text \<open>
  The body of the loop of \<^verbatim>\<open>convert_imgs\<close> (lines 21 to 34) for one entry of the
  listing: open, read and decode the document's name, derive the destination,
  convertProfile, saveAs, close.
\<close>

definition convert_imgs_body ::
  "host \<Rightarrow> string \<Rightarrow> entry \<Rightarrow> event list \<Rightarrow> event list \<times> (js_error + unit)" where
  "convert_imgs_body h tiffSubFolder f t =
     (let fileRef = entry_path f;
          r1 = host_open h t fileRef openOptions;
          t1 = t @ [Open fileRef openOptions r1]
      in case r1 of
           Inl e \<Rightarrow> (t1, Inl e)
         | Inr doc \<Rightarrow>
             (case host_decodeURI h (host_name h t1 doc) of
                Inl e \<Rightarrow> (t1, Inl e)
              | Inr docName \<Rightarrow>
                  (case baseName docName of
                     Inl e \<Rightarrow> (t1, Inl e)
                   | Inr b \<Rightarrow>
                       let out = outFile tiffSubFolder b;
                           r2 = host_convertProfile h t1 doc ''sRGB IEC61966-2.1''
                                  RELATIVECOLORIMETRIC True True;
                           t2 = t1 @ [ConvertProfile doc ''sRGB IEC61966-2.1''
                                        RELATIVECOLORIMETRIC True True r2]
                       in case r2 of
                            Inl e \<Rightarrow> (t2, Inl e)
                          | Inr _ \<Rightarrow>
                              let r3 = host_saveAs h t2 doc out tiffSaveOptions True;
                                  t3 = t2 @ [SaveAs doc out tiffSaveOptions True r3]
                              in case r3 of
                                   Inl e \<Rightarrow> (t3, Inl e)
                                 | Inr _ \<Rightarrow>
                                     let r4 = host_close h t3 doc DONOTSAVECHANGES
                                     in (t3 @ [Close doc DONOTSAVECHANGES r4], r4))))"

text \<open>
  Line 20: \<^verbatim>\<open>for (var i = 1; i < fileList.length; i++)\<close>. The index is a
  parameter; the script starts the loop at 1.
\<close>

function convert_imgs_loop ::
  "host \<Rightarrow> string \<Rightarrow> entry list \<Rightarrow> nat \<Rightarrow> event list \<Rightarrow> event list \<times> (js_error + unit)" where
  "convert_imgs_loop h tiffSubFolder fileList i t =
     (if i < length fileList then
        (case convert_imgs_body h tiffSubFolder (fileList ! i) t of
           (t', Inl e) \<Rightarrow> (t', Inl e)
         | (t', Inr _) \<Rightarrow> convert_imgs_loop h tiffSubFolder fileList (i + 1) t')
      else (t, Inr ()))"
  by pat_completeness auto
termination
  by (relation "measure (\<lambda>(h, tiffSubFolder, fileList, i, t). length fileList - i)") auto

declare convert_imgs_loop.simps [simp del]

text \<open>
  \<^verbatim>\<open>convert_imgs(sourceDir)\<close>, lines 14 to 20: the output folder is the source
  folder's path with \<^verbatim>\<open>/TIFF/\<close> appended, the listing is taken, and reading
  \<^verbatim>\<open>fileList.length\<close> of \<^verbatim>\<open>null\<close> throws.
\<close>

definition convert_imgs ::
  "host \<Rightarrow> string \<Rightarrow> event list \<Rightarrow> event list \<times> (js_error + unit)" where
  "convert_imgs h sourceDir t =
     (let srcFolderStr = sourceDir;
          tiffSubFolder = srcFolderStr @ ''/TIFF/'';
          r = host_getFiles h t srcFolderStr;
          t1 = t @ [GetFiles srcFolderStr r]
      in case r of
           Inl e \<Rightarrow> (t1, Inl e)
         | Inr None \<Rightarrow> (t1, Inl TypeError)
         | Inr (Some fileList) \<Rightarrow> convert_imgs_loop h tiffSubFolder fileList 1 t1)"

subsection \<open>What a run did\<close>

text \<open>
  Read off the list of calls: the paths passed to \<^verbatim>\<open>open\<close>, the paths passed to
  \<^verbatim>\<open>saveAs\<close>, and the documents that were opened and not closed since (a successful
  \<^verbatim>\<open>open\<close> acquires its document, a call of \<^verbatim>\<open>close\<close> releases it).
\<close>

fun opened_paths :: "event list \<Rightarrow> string list" where
  "opened_paths [] = []"
| "opened_paths (Open p opts r # es) = p # opened_paths es"
| "opened_paths (e # es) = opened_paths es"

fun saved_paths :: "event list \<Rightarrow> string list" where
  "saved_paths [] = []"
| "saved_paths (SaveAs d p opts asCopy r # es) = p # saved_paths es"
| "saved_paths (e # es) = saved_paths es"

text \<open>The paths saved between the calls \<open>t\<close> and the longer list of calls \<open>t'\<close>.\<close>

definition new_saved :: "event list \<Rightarrow> event list \<Rightarrow> string list" where
  "new_saved t t' = drop (length (saved_paths t)) (saved_paths t')"

fun open_docs :: "doc list \<Rightarrow> event list \<Rightarrow> doc list" where
  "open_docs ds [] = ds"
| "open_docs ds (Open p opts (Inr d) # es) = open_docs (d # ds) es"
| "open_docs ds (Close d s r # es) = open_docs (remove1 d ds) es"
| "open_docs ds (e # es) = open_docs ds es"

fun saved_docs :: "event list \<Rightarrow> doc list" where
  "saved_docs [] = []"
| "saved_docs (SaveAs d p opts asCopy r # es) = d # saved_docs es"
| "saved_docs (e # es) = saved_docs es"

text \<open>
  The conversion options as a call carries them: colour space sRGB and 16 bits per
  channel when opening, relative colorimetric intent when converting, an embedded
  profile and LZW compression when saving as TIFF.
\<close>

fun fixed_options :: "event \<Rightarrow> bool" where
  "fixed_options (Open p opts r) =
     (colorSpace opts = Some SRGB \<and> bitsPerChannel opts = Some SIXTEEN)"
| "fixed_options (ConvertProfile d n i bpc dither r) = (i = RELATIVECOLORIMETRIC)"
| "fixed_options (SaveAs d p opts asCopy r) =
     (embedColorProfile opts = Some True \<and> imageCompression opts = Some TIFFLZW)"
| "fixed_options e = True"

text \<open>
  A document is prepared in a run when it was opened with the open options of the
  scripts and its profile was converted to sRGB, both successfully.
\<close>

definition prepared :: "event list \<Rightarrow> doc \<Rightarrow> bool" where
  "prepared t d =
     ((\<exists>p \<in> set (opened_paths t). Open p openOptions (Inr d) \<in> set t)
      \<and> ConvertProfile d ''sRGB IEC61966-2.1'' RELATIVECOLORIMETRIC True True (Inr ()) \<in> set t)"

text \<open>
  The profile conversion as a call carries it: the target profile, the intent, and
  the two trailing flags (black-point compensation and dithering).
\<close>

fun profile_step :: "event \<Rightarrow> bool" where
  "profile_step (ConvertProfile d n i bpc dither r) =
     (n = ''sRGB IEC61966-2.1'' \<and> i = RELATIVECOLORIMETRIC \<and> bpc \<and> dither)"
| "profile_step e = True"

text \<open>A call of \<^verbatim>\<open>close\<close> that does not save changes; a call that creates a folder.\<close>

fun discards :: "event \<Rightarrow> bool" where
  "discards (Close d s r) = (s = DONOTSAVECHANGES)"
| "discards e = True"

fun is_FolderCreate :: "event \<Rightarrow> bool" where
  "is_FolderCreate (FolderCreate p r) = True"
| "is_FolderCreate e = False"

text \<open>
  Every \<^verbatim>\<open>saveAs\<close> of the list comes after a successful creation of a folder
  (\<open>c\<close>: one has been seen already).
\<close>

fun created_before_save :: "bool \<Rightarrow> event list \<Rightarrow> bool" where
  "created_before_save c [] = True"
| "created_before_save c (FolderCreate p (Inr u) # es) = created_before_save True es"
| "created_before_save c (SaveAs d p opts asCopy r # es) = (c \<and> created_before_save c es)"
| "created_before_save c (e # es) = created_before_save c es"

subsection \<open>Hosts to run the scripts on\<close>

text \<open>
  A host on which every call succeeds: the folder listing is \<open>listing\<close>, the handle
  of a document is the position of its \<^verbatim>\<open>open\<close> among the calls, its name is the
  final segment of the path it was opened from, and names hold no escapes to decode.
\<close>

definition plain_name :: "event list \<Rightarrow> doc \<Rightarrow> string" where
  "plain_name t d =
     (if d < length t then (case t ! d of Open p opts r \<Rightarrow> final_segment p | _ \<Rightarrow> [])
      else [])"

definition plain_host :: "entry list \<Rightarrow> host" where
  "plain_host listing =
     \<lparr>host_getFiles = (\<lambda>t p. Inr (Some listing)),
      host_open = (\<lambda>t p opts. Inr (length t)),
      host_name = plain_name,
      host_decodeURI = (\<lambda>s. Inr s),
      host_convertProfile = (\<lambda>t d n i bpc dither. Inr ()),
      host_saveAs = (\<lambda>t d p opts asCopy. Inr ()),
      host_close = (\<lambda>t d s. Inr ())\<rparr>"

text \<open>
  The built-in \<^verbatim>\<open>decodeURI\<close>, as the language standard gives it: an escape
  \<^verbatim>\<open>%XX\<close> of two hexadecimal digits is replaced by the character it denotes,
  unless that character is one of the reserved ones, whose escapes stay as they are; a
  \<^verbatim>\<open>%\<close> that is not followed by two hexadecimal digits throws \<^verbatim>\<open>URIError\<close>.
  The built-in also throws when escaped bytes above 127 do not form a UTF-8 sequence;
  that check is left out here, so the function answers as the built-in on names whose
  escapes are below 128 or form UTF-8 sequences.
\<close>

definition hex_value :: "char \<Rightarrow> nat option" where
  "hex_value c =
     (let n = (of_char c :: nat)
      in if 48 \<le> n \<and> n \<le> 57 then Some (n - 48)
         else if 65 \<le> n \<and> n \<le> 70 then Some (n - 55)
         else if 97 \<le> n \<and> n \<le> 102 then Some (n - 87)
         else None)"

definition uriReserved :: string where
  "uriReserved = '';/?:@&=+$,#''"

fun decodeURI :: "string \<Rightarrow> js_error + string" where
  "decodeURI [] = Inr []"
| "decodeURI (c # cs) =
     (if c = CHR ''%'' then
        (case cs of
           h1 # h2 # rest \<Rightarrow>
             (case (hex_value h1, hex_value h2) of
                (Some a, Some b) \<Rightarrow>
                  (case decodeURI rest of
                     Inl e \<Rightarrow> Inl e
                   | Inr r \<Rightarrow>
                       Inr (if char_of (16 * a + b) \<in> set uriReserved then c # h1 # h2 # r
                            else char_of (16 * a + b) # r))
              | _ \<Rightarrow> Inl URIError)
         | _ \<Rightarrow> Inl URIError)
      else (case decodeURI cs of
              Inl e \<Rightarrow> Inl e
            | Inr r \<Rightarrow> Inr (c # r)))"

text \<open>
  A host that differs from the first in that names are decoded by \<^verbatim>\<open>decodeURI\<close>.
\<close>

definition uri_host :: "entry list \<Rightarrow> host" where
  "uri_host listing = (plain_host listing)\<lparr>host_decodeURI := decodeURI\<rparr>"

text \<open>A host on which \<^verbatim>\<open>convertProfile\<close> throws.\<close>

definition no_profile_host :: "entry list \<Rightarrow> host" where
  "no_profile_host listing =
     (plain_host listing)
       \<lparr>host_convertProfile := (\<lambda>t d n i bpc dither. Inl (HostError ''no source profile''))\<rparr>"

text \<open>
  A host on which no output folder exists: \<^verbatim>\<open>saveAs\<close> throws as long as no folder
  has been created.
\<close>

definition missing_folder_host :: "entry list \<Rightarrow> host" where
  "missing_folder_host listing =
     (plain_host listing)
       \<lparr>host_saveAs := (\<lambda>t d p opts asCopy.
           if list_ex is_FolderCreate t then Inr ()
           else Inl (HostError ''folder does not exist''))\<rparr>"

subsection \<open>Properties of the name derivation\<close>

lemma takeWhile_absent: "sep \<notin> set xs \<Longrightarrow> takeWhile (\<lambda>c. c \<noteq> sep) xs = xs"
  by (induction xs) auto

lemma js_split_not_Nil: "js_split sep s \<noteq> []"
  by (induction s) (auto split: list.splits)

lemma js_split_single: "(js_split sep s = [s]) = (sep \<notin> set s)"
proof (induction s)
  case Nil
  show ?case by simp
next
  case (Cons c cs)
  show ?case
  proof (cases "c = sep")
    case True
    then show ?thesis by (simp add: js_split_not_Nil)
  next
    case False
    obtain x xs where sp: "js_split sep cs = x # xs"
      using js_split_not_Nil [of sep cs] by (cases "js_split sep cs") auto
    from False sp Cons.IH show ?thesis by auto
  qed
qed

lemma length_js_split: "length (js_split sep s) = Suc (length (filter (\<lambda>c. c = sep) s))"
proof (induction s)
  case Nil
  show ?case by simp
next
  case (Cons c cs)
  then show ?case
    by (cases "js_split sep cs") auto
qed

lemma js_split_several: "sep \<in> set s \<Longrightarrow> js_split sep s = x # xs \<Longrightarrow> xs \<noteq> []"
proof
  assume mem: "sep \<in> set s" and sp: "js_split sep s = x # xs" and "xs = []"
  then have "length (js_split sep s) = 1" by simp
  then have "filter (\<lambda>c. c = sep) s = []" by (simp add: length_js_split)
  with mem show False by (auto simp: filter_empty_conv)
qed

lemma index0_js_split: "index0 (js_split sep s) = Some (takeWhile (\<lambda>c. c \<noteq> sep) s)"
proof (induction s)
  case Nil
  show ?case by (simp add: index0_def)
next
  case (Cons c cs)
  then show ?case
    by (cases "js_split sep cs") (auto simp: index0_def)
qed

lemma last_js_split: "last (js_split sep s) = rev (takeWhile (\<lambda>c. c \<noteq> sep) (rev s))"
proof (induction s)
  case Nil
  show ?case by simp
next
  case (Cons c cs)
  show ?case
  proof (cases "c = sep")
    case True
    have "takeWhile (\<lambda>c. c \<noteq> sep) (rev cs @ [sep]) = takeWhile (\<lambda>c. c \<noteq> sep) (rev cs)"
      by (cases "sep \<in> set cs") (auto simp: takeWhile_append takeWhile_absent)
    with True Cons.IH show ?thesis by (simp add: js_split_not_Nil)
  next
    case False
    obtain x xs where sp: "js_split sep cs = x # xs"
      using js_split_not_Nil [of sep cs] by (cases "js_split sep cs") auto
    show ?thesis
    proof (cases "sep \<in> set cs")
      case True
      from True sp have "xs \<noteq> []" by (rule js_split_several)
      moreover have "takeWhile (\<lambda>c. c \<noteq> sep) (rev cs @ [c]) = takeWhile (\<lambda>c. c \<noteq> sep) (rev cs)"
        using True by (auto simp: takeWhile_append)
      ultimately show ?thesis using False sp Cons.IH by simp
    next
      case no: False
      with sp js_split_single [of sep cs] have x: "x = cs" "xs = []" by auto
      have tw: "takeWhile (\<lambda>c. c \<noteq> sep) (rev cs @ [c]) = rev cs @ [c]"
        using no False by (simp add: takeWhile_absent)
      show ?thesis unfolding rev.simps tw using False sp x by simp
    qed
  qed
qed

lemma pop_js_split: "pop (js_split CHR ''/'' p) = Some (final_segment p)"
  by (simp add: pop_def js_split_not_Nil last_js_split final_segment_def)

lemma baseName_spec: "baseName p = Inr (Some (spec_base p))"
  by (simp add: baseName_def pop_js_split index0_js_split spec_base_def)

subsection \<open>Properties of the runs\<close>

text \<open>
  A property of the list of calls that every pass through the loop body keeps is kept
  by the loop, and so holds after \<^verbatim>\<open>convert_imgs\<close> when it holds after the
  listing was taken.
\<close>

lemma convert_imgs_loop_invariant:
  assumes step: "\<And>f t. Q t \<Longrightarrow> Q (fst (convert_imgs_body h sub f t))"
  shows "Q t \<Longrightarrow> Q (fst (convert_imgs_loop h sub fl i t))"
proof (induction "length fl - i" arbitrary: i t)
  case 0
  then show ?case by (simp add: convert_imgs_loop.simps)
next
  case (Suc n)
  then have less: "i < length fl" by simp
  obtain t' r where body: "convert_imgs_body h sub (fl ! i) t = (t', r)"
    by (cases "convert_imgs_body h sub (fl ! i) t")
  from step [OF Suc.prems, of "fl ! i"] body have q: "Q t'" by simp
  show ?case
  proof (cases r)
    case (Inl e)
    with less body q show ?thesis by (simp add: convert_imgs_loop.simps)
  next
    case (Inr u)
    from Suc.hyps(2) less have "n = length fl - (i + 1)" by simp
    from Suc.hyps(1) [OF this q] less body Inr show ?thesis
      by (simp add: convert_imgs_loop.simps)
  qed
qed

lemma convert_imgs_invariant:
  assumes step: "\<And>f t. Q t \<Longrightarrow> Q (fst (convert_imgs_body h (dir @ ''/TIFF/'') f t))"
    and start: "\<And>r. Q [GetFiles dir r]"
  shows "Q (fst (convert_imgs h dir []))"
proof (cases "host_getFiles h [] dir")
  case (Inl e)
  then show ?thesis by (simp add: convert_imgs_def start)
next
  case (Inr l)
  show ?thesis
  proof (cases l)
    case None
    with Inr show ?thesis by (simp add: convert_imgs_def start)
  next
    case (Some fileList)
    with Inr convert_imgs_loop_invariant [of Q h "dir @ ''/TIFF/''", OF step start]
    show ?thesis by (simp add: convert_imgs_def)
  qed
qed

text \<open>The same for a property that only successful runs keep.\<close>

lemma convert_imgs_loop_returned:
  assumes step: "\<And>f t. snd (convert_imgs_body h sub f t) = Inr () \<Longrightarrow> Q t \<Longrightarrow>
                   Q (fst (convert_imgs_body h sub f t))"
  shows "snd (convert_imgs_loop h sub fl i t) = Inr () \<Longrightarrow> Q t \<Longrightarrow>
         Q (fst (convert_imgs_loop h sub fl i t))"
proof (induction "length fl - i" arbitrary: i t)
  case 0
  then show ?case by (simp add: convert_imgs_loop.simps)
next
  case (Suc n)
  then have less: "i < length fl" by simp
  obtain t' r where body: "convert_imgs_body h sub (fl ! i) t = (t', r)"
    by (cases "convert_imgs_body h sub (fl ! i) t")
  show ?case
  proof (cases r)
    case (Inl e)
    with less body Suc.prems(1) show ?thesis by (simp add: convert_imgs_loop.simps)
  next
    case (Inr u)
    with step [of "fl ! i" t] body Suc.prems(2) have q: "Q t'" by simp
    from less body Inr
    have unfold: "convert_imgs_loop h sub fl i t = convert_imgs_loop h sub fl (i + 1) t'"
      by (simp add: convert_imgs_loop.simps)
    from Suc.hyps(2) less have "n = length fl - (i + 1)" by simp
    from Suc.hyps(1) [OF this _ q] Suc.prems(1) show ?thesis
      by (simp add: unfold)
  qed
qed

lemma open_docs_append: "open_docs ds (t @ ev) = open_docs (open_docs ds t) ev"
  by (induction ds t rule: open_docs.induct) auto

lemma convert_imgs_body_released:
  "snd (convert_imgs_body h sub f t) = Inr () \<Longrightarrow>
   open_docs ds (fst (convert_imgs_body h sub f t)) = open_docs ds t"
  by (auto simp: convert_imgs_body_def Let_def open_docs_append split: sum.splits)

lemma convert_imgs_released:
  assumes "snd (convert_imgs h dir []) = Inr ()"
  shows "open_docs [] (fst (convert_imgs h dir [])) = []"
proof -
  obtain fileList where l: "host_getFiles h [] dir = Inr (Some fileList)"
    using assms by (auto simp: convert_imgs_def Let_def split: sum.splits option.splits)
  let ?t1 = "[GetFiles dir (Inr (Some fileList))]"
  have run: "convert_imgs h dir [] = convert_imgs_loop h (dir @ ''/TIFF/'') fileList 1 ?t1"
    by (simp add: convert_imgs_def l)
  have "open_docs [] (fst (convert_imgs_loop h (dir @ ''/TIFF/'') fileList 1 ?t1)) = []"
  proof (rule convert_imgs_loop_returned [where Q = "\<lambda>t. open_docs [] t = []"])
    show "snd (convert_imgs_loop h (dir @ ''/TIFF/'') fileList 1 ?t1) = Inr ()"
      using assms by (simp add: run)
    show "open_docs [] ?t1 = []" by simp
  next
    fix f t
    assume "snd (convert_imgs_body h (dir @ ''/TIFF/'') f t) = Inr ()" "open_docs [] t = []"
    then show "open_docs [] (fst (convert_imgs_body h (dir @ ''/TIFF/'') f t)) = []"
      by (simp add: convert_imgs_body_released)
  qed
  then show ?thesis by (simp add: run)
qed

text \<open>
  C6, as amended. When a conversion returns (no step threw), every document it opened
  has been closed, in single-file and in batch mode. Nothing closes the document when
  \<^verbatim>\<open>convertProfile\<close> or \<^verbatim>\<open>saveAs\<close> throws: after \<^verbatim>\<open>convert_img\<close> the document
  is still open exactly when it was opened and one of these two calls threw.
\<close>

theorem C6_released_when_returned:
  "(snd (convert_img h inFile out []) = Inr () \<longrightarrow>
      open_docs [] (fst (convert_img h inFile out [])) = [])
   \<and> (snd (convert_imgs h dir []) = Inr () \<longrightarrow>
      open_docs [] (fst (convert_imgs h dir [])) = [])
   \<and> open_docs [] (fst (convert_img h inFile out [])) =
     (case host_open h [] inFile openOptions of
        Inl e \<Rightarrow> []
      | Inr d \<Rightarrow>
          (case host_convertProfile h [Open inFile openOptions (Inr d)] d ''sRGB IEC61966-2.1''
                  RELATIVECOLORIMETRIC True True of
             Inl e \<Rightarrow> [d]
           | Inr u \<Rightarrow>
               (case host_saveAs h [Open inFile openOptions (Inr d),
                                    ConvertProfile d ''sRGB IEC61966-2.1''
                                      RELATIVECOLORIMETRIC True True (Inr u)]
                       d out tiffSaveOptions True of
                  Inl e \<Rightarrow> [d]
                | Inr u' \<Rightarrow> [])))"
proof -
  have leak: "open_docs [] (fst (convert_img h inFile out [])) =
     (case host_open h [] inFile openOptions of
        Inl e \<Rightarrow> []
      | Inr d \<Rightarrow>
          (case host_convertProfile h [Open inFile openOptions (Inr d)] d ''sRGB IEC61966-2.1''
                  RELATIVECOLORIMETRIC True True of
             Inl e \<Rightarrow> [d]
           | Inr u \<Rightarrow>
               (case host_saveAs h [Open inFile openOptions (Inr d),
                                    ConvertProfile d ''sRGB IEC61966-2.1''
                                      RELATIVECOLORIMETRIC True True (Inr u)]
                       d out tiffSaveOptions True of
                  Inl e \<Rightarrow> [d]
                | Inr u' \<Rightarrow> [])))"
    by (simp add: convert_img_def Let_def split: sum.splits)
  have single: "snd (convert_img h inFile out []) = Inr () \<longrightarrow>
      open_docs [] (fst (convert_img h inFile out [])) = []"
    by (auto simp: convert_img_def Let_def split: sum.splits)
  have batch: "snd (convert_imgs h dir []) = Inr () \<longrightarrow>
      open_docs [] (fst (convert_imgs h dir [])) = []"
    by (simp add: convert_imgs_released)
  from single batch leak show ?thesis by (intro conjI)
qed

text \<open>A batch run and a single conversion that return, with nothing left open.\<close>

theorem C6_released_when_returned_witness:
  "snd (convert_imgs (plain_host [FileEntry ''/photos/a.CR2'', FileEntry ''/photos/b.CR2''])
          ''/photos'' []) = Inr ()
   \<and> opened_paths (fst (convert_imgs (plain_host [FileEntry ''/photos/a.CR2'', FileEntry ''/photos/b.CR2''])
          ''/photos'' [])) = [''/photos/b.CR2'']
   \<and> open_docs [] (fst (convert_imgs (plain_host [FileEntry ''/photos/a.CR2'', FileEntry ''/photos/b.CR2''])
          ''/photos'' [])) = []
   \<and> snd (convert_img (plain_host [FileEntry ''/photos/a.CR2'', FileEntry ''/photos/b.CR2''])
          ''in.CR2'' ''out.tif'' []) = Inr ()
   \<and> open_docs [] (fst (convert_img (plain_host [FileEntry ''/photos/a.CR2'', FileEntry ''/photos/b.CR2''])
          ''in.CR2'' ''out.tif'' [])) = []"
proof -
  have a: "snd (convert_imgs (plain_host [FileEntry ''/photos/a.CR2'', FileEntry ''/photos/b.CR2''])
          ''/photos'' []) = Inr ()" by code_simp
  have b: "opened_paths (fst (convert_imgs (plain_host [FileEntry ''/photos/a.CR2'', FileEntry ''/photos/b.CR2''])
          ''/photos'' [])) = [''/photos/b.CR2'']" by code_simp
  have c: "snd (convert_img (plain_host [FileEntry ''/photos/a.CR2'', FileEntry ''/photos/b.CR2''])
          ''in.CR2'' ''out.tif'' []) = Inr ()" by code_simp
  from a b c C6_released_when_returned [of
       "plain_host [FileEntry ''/photos/a.CR2'', FileEntry ''/photos/b.CR2'']"
       "''in.CR2''" "''out.tif''" "''/photos''"]
  show ?thesis by simp
qed

text \<open>
  C6 as stated fails: when \<^verbatim>\<open>convertProfile\<close> throws, the run ends with that
  error and document 0, which \<^verbatim>\<open>open\<close> returned, is never closed.
\<close>

theorem C6_counterexample:
  "snd (convert_img (no_profile_host []) ''in.CR2'' ''out.tif'' []) = Inl (HostError ''no source profile'')
   \<and> open_docs [] (fst (convert_img (no_profile_host []) ''in.CR2'' ''out.tif'' [])) = [0]"
  by code_simp

lemma opened_paths_append: "opened_paths (t @ ev) = opened_paths t @ opened_paths ev"
  by (induction t rule: opened_paths.induct) auto

lemma saved_paths_append: "saved_paths (t @ ev) = saved_paths t @ saved_paths ev"
  by (induction t rule: saved_paths.induct) auto

lemma saved_docs_append: "saved_docs (t @ ev) = saved_docs t @ saved_docs ev"
  by (induction t rule: saved_docs.induct) auto

lemma prepared_append: "prepared t d \<Longrightarrow> prepared (t @ ev) d"
  by (auto simp: prepared_def opened_paths_append)

lemma convert_imgs_loop_first_entry:
  "0 < i \<Longrightarrow> convert_imgs_loop h sub (f # fs) i t = convert_imgs_loop h sub (g # fs) i t"
proof (induction "length fs - (i - 1)" arbitrary: i t)
  case 0
  then show ?case by (simp add: convert_imgs_loop.simps)
next
  case (Suc n)
  then have less: "i < length (f # fs)" "i < length (g # fs)" by simp_all
  from Suc.prems have same: "(f # fs) ! i = (g # fs) ! i" by (cases i) simp_all
  from Suc.hyps(2) Suc.prems have "n = length fs - (i + 1 - 1)" by simp
  then have ih: "convert_imgs_loop h sub (f # fs) (i + 1) t' = convert_imgs_loop h sub (g # fs) (i + 1) t'" for t'
    by (rule Suc.hyps(1)) simp
  show ?case
    unfolding convert_imgs_loop.simps [of h sub "f # fs" i t] convert_imgs_loop.simps [of h sub "g # fs" i t]
    using less same ih by (simp split: prod.splits sum.splits)
qed

text \<open>
  C1. The loop starts at index 1, so the first entry of the listing is never read:
  replacing it by any other entry gives the same run. On a folder listing of two files
  on which every call succeeds, only the second file is opened and saved.
\<close>

theorem C1_first_entry_skipped:
  "convert_imgs_loop h sub (f # fs) 1 t = convert_imgs_loop h sub (g # fs) 1 t
   \<and> snd (convert_imgs (plain_host [FileEntry ''/photos/a.CR2'', FileEntry ''/photos/b.CR2''])
          ''/photos'' []) = Inr ()
   \<and> opened_paths (fst (convert_imgs (plain_host [FileEntry ''/photos/a.CR2'', FileEntry ''/photos/b.CR2''])
          ''/photos'' [])) = [''/photos/b.CR2'']
   \<and> saved_paths (fst (convert_imgs (plain_host [FileEntry ''/photos/a.CR2'', FileEntry ''/photos/b.CR2''])
          ''/photos'' [])) = [''/photos/TIFF//b.tif'']"
proof -
  have a: "snd (convert_imgs (plain_host [FileEntry ''/photos/a.CR2'', FileEntry ''/photos/b.CR2''])
          ''/photos'' []) = Inr ()" by code_simp
  have b: "opened_paths (fst (convert_imgs (plain_host [FileEntry ''/photos/a.CR2'', FileEntry ''/photos/b.CR2''])
          ''/photos'' [])) = [''/photos/b.CR2'']" by code_simp
  have c: "saved_paths (fst (convert_imgs (plain_host [FileEntry ''/photos/a.CR2'', FileEntry ''/photos/b.CR2''])
          ''/photos'' [])) = [''/photos/TIFF//b.tif'']" by code_simp
  have d: "convert_imgs_loop h sub (f # fs) 1 t = convert_imgs_loop h sub (g # fs) 1 t"
    by (rule convert_imgs_loop_first_entry) simp
  from d a b c show ?thesis by (intro conjI)
qed

text \<open>
  Every call of a run has one of the forms the script text gives it, so a property of
  these forms holds of every call made.
\<close>

lemma convert_img_events:
  assumes "\<And>r. P (Open inFile openOptions r)"
    and "\<And>d r. P (ConvertProfile d ''sRGB IEC61966-2.1'' RELATIVECOLORIMETRIC True True r)"
    and "\<And>d r. P (SaveAs d out tiffSaveOptions True r)"
    and "\<And>d r. P (Close d DONOTSAVECHANGES r)"
  shows "list_all P t \<Longrightarrow> list_all P (fst (convert_img h inFile out t))"
  using assms by (simp add: convert_img_def Let_def split: sum.splits)

lemma convert_imgs_body_events:
  assumes "\<And>p r. P (Open p openOptions r)"
    and "\<And>d r. P (ConvertProfile d ''sRGB IEC61966-2.1'' RELATIVECOLORIMETRIC True True r)"
    and "\<And>d b r. P (SaveAs d (outFile sub b) tiffSaveOptions True r)"
    and "\<And>d r. P (Close d DONOTSAVECHANGES r)"
  shows "list_all P t \<Longrightarrow> list_all P (fst (convert_imgs_body h sub f t))"
  using assms by (simp add: convert_imgs_body_def Let_def split: sum.splits)

lemma convert_imgs_events:
  assumes "\<And>r. P (GetFiles dir r)"
    and "\<And>p r. P (Open p openOptions r)"
    and "\<And>d r. P (ConvertProfile d ''sRGB IEC61966-2.1'' RELATIVECOLORIMETRIC True True r)"
    and "\<And>d b r. P (SaveAs d (outFile (dir @ ''/TIFF/'') b) tiffSaveOptions True r)"
    and "\<And>d r. P (Close d DONOTSAVECHANGES r)"
  shows "list_all P (fst (convert_imgs h dir []))"
proof (rule convert_imgs_invariant)
  fix f t
  assume "list_all P t"
  then show "list_all P (fst (convert_imgs_body h (dir @ ''/TIFF/'') f t))"
    by (rule convert_imgs_body_events [rotated -1]) (rule assms)+
next
  fix r
  show "list_all P [GetFiles dir r]" by (simp add: assms)
qed

lemma options_fixed:
  "colorSpace openOptions = Some SRGB" "bitsPerChannel openOptions = Some SIXTEEN"
  "embedColorProfile tiffSaveOptions = Some True" "imageCompression tiffSaveOptions = Some TIFFLZW"
  by (simp_all add: openOptions_def tiffSaveOptions_def new_CameraRAWOpenOptions_def
      new_TiffSaveOptions_def)

lemma convert_img_prepared:
  "list_all (prepared (fst (convert_img h inFile out []))) (saved_docs (fst (convert_img h inFile out [])))"
  by (simp add: convert_img_def Let_def prepared_def split: sum.splits)

lemma convert_imgs_body_prepared:
  assumes "list_all (prepared t) (saved_docs t)"
  shows "list_all (prepared (fst (convert_imgs_body h sub f t)))
           (saved_docs (fst (convert_imgs_body h sub f t)))"
proof -
  have keep: "list_all (prepared (t @ ev)) (saved_docs t)" for ev
    using assms by (auto simp: list_all_iff prepared_append)
  show ?thesis
    using keep
    by (simp add: convert_imgs_body_def Let_def saved_docs_append
        split: sum.splits)
       (auto simp: prepared_def opened_paths_append)
qed

lemma convert_imgs_prepared:
  "list_all (prepared (fst (convert_imgs h dir []))) (saved_docs (fst (convert_imgs h dir [])))"
  by (rule convert_imgs_invariant [where Q = "\<lambda>t. list_all (prepared t) (saved_docs t)"])
     (simp_all add: convert_imgs_body_prepared)

text \<open>
  C3. The two option objects are fixed: colour space sRGB and 16 bits per channel for
  opening, embedded profile and LZW compression for saving. In every run of either
  script, on any host, every \<^verbatim>\<open>open\<close> carries these open options, every
  \<^verbatim>\<open>convertProfile\<close> the relative colorimetric intent, and every \<^verbatim>\<open>saveAs\<close>,
  the only call that produces a file, these TIFF save options; and every document
  saved was opened with these open options and converted to sRGB before.
\<close>

theorem C3_fixed_options:
  "openOptions = \<lparr>colorSpace = Some SRGB, bitsPerChannel = Some SIXTEEN\<rparr>
   \<and> tiffSaveOptions = \<lparr>embedColorProfile = Some True, imageCompression = Some TIFFLZW\<rparr>
   \<and> list_all fixed_options (fst (convert_img h inFile out []))
   \<and> list_all fixed_options (fst (convert_imgs h dir []))
   \<and> list_all (prepared (fst (convert_img h inFile out [])))
        (saved_docs (fst (convert_img h inFile out [])))
   \<and> list_all (prepared (fst (convert_imgs h dir [])))
        (saved_docs (fst (convert_imgs h dir [])))"
proof -
  have opts: "openOptions = \<lparr>colorSpace = Some SRGB, bitsPerChannel = Some SIXTEEN\<rparr>"
    "tiffSaveOptions = \<lparr>embedColorProfile = Some True, imageCompression = Some TIFFLZW\<rparr>"
    by (simp_all add: openOptions_def tiffSaveOptions_def new_CameraRAWOpenOptions_def
        new_TiffSaveOptions_def)
  have single: "list_all fixed_options (fst (convert_img h inFile out []))"
    by (rule convert_img_events) (simp_all add: options_fixed)
  have batch: "list_all fixed_options (fst (convert_imgs h dir []))"
    by (rule convert_imgs_events) (simp_all add: options_fixed)
  from opts single batch convert_img_prepared convert_imgs_prepared
  show ?thesis by (intro conjI)
qed

text \<open>The calls of a single conversion on which every call succeeds.\<close>

theorem C3_fixed_options_witness:
  "fst (convert_img (plain_host []) ''in.CR2'' ''out.tif'' []) =
     [Open ''in.CR2'' \<lparr>colorSpace = Some SRGB, bitsPerChannel = Some SIXTEEN\<rparr> (Inr 0),
      ConvertProfile 0 ''sRGB IEC61966-2.1'' RELATIVECOLORIMETRIC True True (Inr ()),
      SaveAs 0 ''out.tif'' \<lparr>embedColorProfile = Some True, imageCompression = Some TIFFLZW\<rparr>
        True (Inr ()),
      Close 0 DONOTSAVECHANGES (Inr ())]
   \<and> list_all fixed_options (fst (convert_img (plain_host []) ''in.CR2'' ''out.tif'' []))
   \<and> saved_docs (fst (convert_img (plain_host []) ''in.CR2'' ''out.tif'' [])) = [0]
   \<and> prepared (fst (convert_img (plain_host []) ''in.CR2'' ''out.tif'' [])) 0"
proof -
  have run: "fst (convert_img (plain_host []) ''in.CR2'' ''out.tif'' []) =
     [Open ''in.CR2'' \<lparr>colorSpace = Some SRGB, bitsPerChannel = Some SIXTEEN\<rparr> (Inr 0),
      ConvertProfile 0 ''sRGB IEC61966-2.1'' RELATIVECOLORIMETRIC True True (Inr ()),
      SaveAs 0 ''out.tif'' \<lparr>embedColorProfile = Some True, imageCompression = Some TIFFLZW\<rparr>
        True (Inr ()),
      Close 0 DONOTSAVECHANGES (Inr ())]"
    by code_simp
  have docs: "saved_docs (fst (convert_img (plain_host []) ''in.CR2'' ''out.tif'' [])) = [0]"
    by code_simp
  from C3_fixed_options [of "plain_host []" "''in.CR2''" "''out.tif''" "''/photos''"]
  have "list_all fixed_options (fst (convert_img (plain_host []) ''in.CR2'' ''out.tif'' []))"
    and "list_all (prepared (fst (convert_img (plain_host []) ''in.CR2'' ''out.tif'' [])))
           (saved_docs (fst (convert_img (plain_host []) ''in.CR2'' ''out.tif'' [])))"
    by blast+
  with run docs show ?thesis by simp
qed

lemma saved_paths_list_all:
  "list_all (\<lambda>e. \<forall>d p opts a r. e = SaveAs d p opts a r \<longrightarrow> ok p) t \<Longrightarrow> list_all ok (saved_paths t)"
  by (induction t rule: saved_paths.induct) auto

text \<open>
  C8. In every run of either script, on any host, every \<^verbatim>\<open>convertProfile\<close> call
  names the profile sRGB IEC61966-2.1 and the relative colorimetric intent and has both
  trailing flags (black-point compensation, dithering) set to true. The call is made
  for every job that gets there: in \<^verbatim>\<open>convert_img\<close> whenever the document was
  opened, in the loop body of \<^verbatim>\<open>convert_imgs\<close> whenever it was opened and its name
  decoded.
\<close>

theorem C8_profile_conversion:
  "list_all profile_step (fst (convert_img h inFile out []))
   \<and> list_all profile_step (fst (convert_imgs h dir []))
   \<and> (\<forall>d. host_open h [] inFile openOptions = Inr d \<longrightarrow>
         (\<exists>r. ConvertProfile d ''sRGB IEC61966-2.1'' RELATIVECOLORIMETRIC True True r
                \<in> set (fst (convert_img h inFile out []))))
   \<and> (\<forall>d n. host_open h t (entry_path f) openOptions = Inr d \<and>
            host_decodeURI h (host_name h (t @ [Open (entry_path f) openOptions (Inr d)]) d) = Inr n \<longrightarrow>
         (\<exists>r. ConvertProfile d ''sRGB IEC61966-2.1'' RELATIVECOLORIMETRIC True True r
                \<in> set (fst (convert_imgs_body h sub f t))))"
proof -
  have single: "list_all profile_step (fst (convert_img h inFile out []))"
    by (rule convert_img_events) simp_all
  have batch: "list_all profile_step (fst (convert_imgs h dir []))"
    by (rule convert_imgs_events) simp_all
  have taken: "\<forall>d. host_open h [] inFile openOptions = Inr d \<longrightarrow>
         (\<exists>r. ConvertProfile d ''sRGB IEC61966-2.1'' RELATIVECOLORIMETRIC True True r
                \<in> set (fst (convert_img h inFile out [])))"
    by (auto simp: convert_img_def Let_def split: sum.splits)
  have taken': "\<forall>d n. host_open h t (entry_path f) openOptions = Inr d \<and>
            host_decodeURI h (host_name h (t @ [Open (entry_path f) openOptions (Inr d)]) d) = Inr n \<longrightarrow>
         (\<exists>r. ConvertProfile d ''sRGB IEC61966-2.1'' RELATIVECOLORIMETRIC True True r
                \<in> set (fst (convert_imgs_body h sub f t)))"
    by (auto simp: convert_imgs_body_def Let_def baseName_spec split: sum.splits)
  from single batch taken taken' show ?thesis by (intro conjI)
qed

text \<open>A single conversion whose document is opened and converted.\<close>

theorem C8_profile_conversion_witness:
  "host_open (plain_host []) [] ''in.CR2'' openOptions = Inr 0
   \<and> ConvertProfile 0 ''sRGB IEC61966-2.1'' RELATIVECOLORIMETRIC True True (Inr ())
        \<in> set (fst (convert_img (plain_host []) ''in.CR2'' ''out.tif'' []))
   \<and> list_all profile_step (fst (convert_img (plain_host []) ''in.CR2'' ''out.tif'' []))"
proof -
  have o: "host_open (plain_host []) [] ''in.CR2'' openOptions = Inr 0"
    by (simp add: plain_host_def)
  have c: "ConvertProfile 0 ''sRGB IEC61966-2.1'' RELATIVECOLORIMETRIC True True (Inr ())
        \<in> set (fst (convert_img (plain_host []) ''in.CR2'' ''out.tif'' []))"
    by code_simp
  from C8_profile_conversion [of "plain_host []" "''in.CR2''" "''out.tif''" "''/photos''" "[]"
      "FileEntry ''/photos/a.CR2''" "''/photos/TIFF/''"]
  have "list_all profile_step (fst (convert_img (plain_host []) ''in.CR2'' ''out.tif'' []))"
    by blast
  with o c show ?thesis by (intro conjI)
qed

text \<open>
  What one pass through the loop body saves: nothing when \<^verbatim>\<open>open\<close>,
  \<^verbatim>\<open>decodeURI\<close> or \<^verbatim>\<open>convertProfile\<close> throws, and otherwise the one path made of
  the output folder, a slash and the file name derived from the decoded document name.
  That name holds no slash and its base no dot, so every path a batch run saves lies
  directly below the \<^verbatim>\<open>TIFF\<close> subfolder.
\<close>

lemma convert_imgs_body_saved:
  "saved_paths (fst (convert_imgs_body h sub f t)) =
     saved_paths t @
     (case host_open h t (entry_path f) openOptions of
        Inl e \<Rightarrow> []
      | Inr d \<Rightarrow>
          (case host_decodeURI h (host_name h (t @ [Open (entry_path f) openOptions (Inr d)]) d) of
             Inl e \<Rightarrow> []
           | Inr n \<Rightarrow>
               (case host_convertProfile h (t @ [Open (entry_path f) openOptions (Inr d)]) d
                       ''sRGB IEC61966-2.1'' RELATIVECOLORIMETRIC True True of
                  Inl e \<Rightarrow> []
                | Inr u \<Rightarrow> [sub @ ''/'' @ spec_filename n])))"
  by (simp add: convert_imgs_body_def Let_def saved_paths_append baseName_spec outFile_def
      js_string_def spec_filename_def split: sum.splits)


lemma spec_base_plain: "CHR ''/'' \<notin> set (spec_base n) \<and> CHR ''.'' \<notin> set (spec_base n)"
proof -
  have "CHR ''/'' \<notin> set (final_segment n)"
    unfolding final_segment_def set_rev by (auto dest: set_takeWhileD)
  then have "CHR ''/'' \<notin> set (spec_base n)"
    unfolding spec_base_def by (auto dest: set_takeWhileD)
  moreover have "CHR ''.'' \<notin> set (spec_base n)"
    unfolding spec_base_def by (auto dest: set_takeWhileD)
  ultimately show ?thesis by simp
qed

lemma convert_imgs_saved_shape:
  "list_all (\<lambda>p. \<exists>b. CHR ''/'' \<notin> set b \<and> CHR ''.'' \<notin> set b \<and> p = dir @ ''/TIFF/'' @ ''/'' @ b @ ''.tif'')
     (saved_paths (fst (convert_imgs h dir [])))"
proof (rule convert_imgs_invariant
    [where Q = "\<lambda>t. list_all (\<lambda>p. \<exists>b. CHR ''/'' \<notin> set b \<and> CHR ''.'' \<notin> set b \<and>
                       p = dir @ ''/TIFF/'' @ ''/'' @ b @ ''.tif'') (saved_paths t)"])
  fix f t
  assume "list_all (\<lambda>p. \<exists>b. CHR ''/'' \<notin> set b \<and> CHR ''.'' \<notin> set b \<and>
                       p = dir @ ''/TIFF/'' @ ''/'' @ b @ ''.tif'') (saved_paths t)"
  then show "list_all (\<lambda>p. \<exists>b. CHR ''/'' \<notin> set b \<and> CHR ''.'' \<notin> set b \<and>
                       p = dir @ ''/TIFF/'' @ ''/'' @ b @ ''.tif'')
               (saved_paths (fst (convert_imgs_body h (dir @ ''/TIFF/'') f t)))"
    using spec_base_plain
    by (auto simp: convert_imgs_body_saved spec_filename_def split: sum.splits)
next
  fix r
  show "list_all (\<lambda>p. \<exists>b. CHR ''/'' \<notin> set b \<and> CHR ''.'' \<notin> set b \<and>
                       p = dir @ ''/TIFF/'' @ ''/'' @ b @ ''.tif'') (saved_paths [GetFiles dir r])"
    by simp
qed

lemma convert_imgs_body_new_saved:
  "new_saved t (fst (convert_imgs_body h sub f t)) =
     (case host_open h t (entry_path f) openOptions of
        Inl e \<Rightarrow> []
      | Inr d \<Rightarrow>
          (case host_decodeURI h (host_name h (t @ [Open (entry_path f) openOptions (Inr d)]) d) of
             Inl e \<Rightarrow> []
           | Inr n \<Rightarrow>
               (case host_convertProfile h (t @ [Open (entry_path f) openOptions (Inr d)]) d
                       ''sRGB IEC61966-2.1'' RELATIVECOLORIMETRIC True True of
                  Inl e \<Rightarrow> []
                | Inr u \<Rightarrow> [sub @ ''/'' @ spec_filename n])))"
  by (simp add: new_saved_def convert_imgs_body_saved)

text \<open>
  C7, as amended. Which paths name the same file is the file system's matter, so
  \<open>same_file\<close> is any relation between paths. The only write a job requests is
  its \<^verbatim>\<open>saveAs\<close>: to the given output path in \<^verbatim>\<open>convert_img\<close> (and it is made
  when the document was opened and converted), to the path derived from the decoded
  document name in a pass through the loop body of \<^verbatim>\<open>convert_imgs\<close>. When that
  destination does not name the same file as the job's source, no path the job saves
  names the source file. Every \<^verbatim>\<open>close\<close> that is called discards the changes, and
  every path a batch run saves lies directly below the \<^verbatim>\<open>TIFF\<close> subfolder.
\<close>

theorem C7_only_destination_written:
  "list_all (\<lambda>p. p = out) (saved_paths (fst (convert_img h inFile out [])))
   \<and> (host_open h [] inFile openOptions = Inr d \<and>
       host_convertProfile h [Open inFile openOptions (Inr d)] d
         ''sRGB IEC61966-2.1'' RELATIVECOLORIMETRIC True True = Inr u \<longrightarrow>
       saved_paths (fst (convert_img h inFile out [])) = [out])
   \<and> (\<not> same_file out inFile \<longrightarrow>
       list_all (\<lambda>p. \<not> same_file p inFile) (saved_paths (fst (convert_img h inFile out []))))
   \<and> list_all discards (fst (convert_img h inFile out []))
   \<and> list_all discards (fst (convert_imgs h dir []))
   \<and> list_all (\<lambda>p. \<exists>b. CHR ''/'' \<notin> set b \<and> CHR ''.'' \<notin> set b \<and>
                    p = dir @ ''/TIFF/'' @ ''/'' @ b @ ''.tif'')
        (saved_paths (fst (convert_imgs h dir [])))
   \<and> saved_paths (fst (convert_imgs_body h sub f t)) =
       saved_paths t @ new_saved t (fst (convert_imgs_body h sub f t))
   \<and> (host_open h t (entry_path f) openOptions = Inr d' \<and>
       host_decodeURI h (host_name h (t @ [Open (entry_path f) openOptions (Inr d')]) d') = Inr n \<longrightarrow>
       list_all (\<lambda>p. p = sub @ ''/'' @ spec_filename n)
         (new_saved t (fst (convert_imgs_body h sub f t))))
   \<and> (host_open h t (entry_path f) openOptions = Inr d' \<and>
       host_decodeURI h (host_name h (t @ [Open (entry_path f) openOptions (Inr d')]) d') = Inr n \<and>
       \<not> same_file (sub @ ''/'' @ spec_filename n) (entry_path f) \<longrightarrow>
       list_all (\<lambda>p. \<not> same_file p (entry_path f))
         (new_saved t (fst (convert_imgs_body h sub f t))))
   \<and> (host_open h t (entry_path f) openOptions = Inl e \<longrightarrow>
       new_saved t (fst (convert_imgs_body h sub f t)) = [])
   \<and> (host_open h t (entry_path f) openOptions = Inr d' \<and>
       host_decodeURI h (host_name h (t @ [Open (entry_path f) openOptions (Inr d')]) d') = Inl e \<longrightarrow>
       new_saved t (fst (convert_imgs_body h sub f t)) = [])"
proof -
  have single: "list_all (\<lambda>p. p = out) (saved_paths (fst (convert_img h inFile out [])))"
    by (rule saved_paths_list_all, rule convert_img_events) simp_all
  have exact: "host_open h [] inFile openOptions = Inr d \<and>
       host_convertProfile h [Open inFile openOptions (Inr d)] d
         ''sRGB IEC61966-2.1'' RELATIVECOLORIMETRIC True True = Inr u \<longrightarrow>
       saved_paths (fst (convert_img h inFile out [])) = [out]"
    by (simp add: convert_img_def Let_def split: sum.splits)
  from single have other: "\<not> same_file out inFile \<longrightarrow>
       list_all (\<lambda>p. \<not> same_file p inFile) (saved_paths (fst (convert_img h inFile out [])))"
    by (auto simp: list_all_iff)
  have d1: "list_all discards (fst (convert_img h inFile out []))"
    by (rule convert_img_events) simp_all
  have d2: "list_all discards (fst (convert_imgs h dir []))"
    by (rule convert_imgs_events) simp_all
  have b0: "saved_paths (fst (convert_imgs_body h sub f t)) =
       saved_paths t @ new_saved t (fst (convert_imgs_body h sub f t))"
    by (simp add: new_saved_def convert_imgs_body_saved)
  have b1: "host_open h t (entry_path f) openOptions = Inr d' \<and>
       host_decodeURI h (host_name h (t @ [Open (entry_path f) openOptions (Inr d')]) d') = Inr n \<longrightarrow>
       list_all (\<lambda>p. p = sub @ ''/'' @ spec_filename n)
         (new_saved t (fst (convert_imgs_body h sub f t)))"
    by (simp add: convert_imgs_body_new_saved split: sum.splits)
  have b2: "host_open h t (entry_path f) openOptions = Inr d' \<and>
       host_decodeURI h (host_name h (t @ [Open (entry_path f) openOptions (Inr d')]) d') = Inr n \<and>
       \<not> same_file (sub @ ''/'' @ spec_filename n) (entry_path f) \<longrightarrow>
       list_all (\<lambda>p. \<not> same_file p (entry_path f))
         (new_saved t (fst (convert_imgs_body h sub f t)))"
    by (simp add: convert_imgs_body_new_saved split: sum.splits)
  have b3: "host_open h t (entry_path f) openOptions = Inl e \<longrightarrow>
       new_saved t (fst (convert_imgs_body h sub f t)) = []"
    by (simp add: convert_imgs_body_new_saved)
  have b4: "host_open h t (entry_path f) openOptions = Inr d' \<and>
       host_decodeURI h (host_name h (t @ [Open (entry_path f) openOptions (Inr d')]) d') = Inl e \<longrightarrow>
       new_saved t (fst (convert_imgs_body h sub f t)) = []"
    by (simp add: convert_imgs_body_new_saved)
  from single exact other d1 d2 convert_imgs_saved_shape b0 b1 b2 b3 b4
  show ?thesis by (intro conjI)
qed

text \<open>
  A single conversion and a pass through the loop body whose destinations do not name
  the source, with two paths naming the same file when their final segments agree.
\<close>

theorem C7_only_destination_written_witness:
  "final_segment ''out.tif'' \<noteq> final_segment ''in.CR2''
   \<and> saved_paths (fst (convert_img (plain_host [FileEntry ''/photos/a.CR2'', FileEntry ''/photos/b.CR2''])
        ''in.CR2'' ''out.tif'' [])) = [''out.tif'']
   \<and> list_all (\<lambda>p. final_segment p \<noteq> final_segment ''in.CR2'')
        (saved_paths (fst (convert_img (plain_host [FileEntry ''/photos/a.CR2'', FileEntry ''/photos/b.CR2''])
          ''in.CR2'' ''out.tif'' [])))
   \<and> final_segment (''/photos/TIFF/'' @ ''/'' @ spec_filename ''b.CR2'') \<noteq> final_segment ''/photos/b.CR2''
   \<and> new_saved [GetFiles ''/photos'' (Inr (Some [FileEntry ''/photos/a.CR2'', FileEntry ''/photos/b.CR2'']))]
        (fst (convert_imgs_body (plain_host [FileEntry ''/photos/a.CR2'', FileEntry ''/photos/b.CR2''])
           ''/photos/TIFF/'' (FileEntry ''/photos/b.CR2'')
           [GetFiles ''/photos'' (Inr (Some [FileEntry ''/photos/a.CR2'', FileEntry ''/photos/b.CR2'']))]))
       = [''/photos/TIFF//b.tif'']
   \<and> list_all (\<lambda>p. final_segment p \<noteq> final_segment ''/photos/b.CR2'')
        (new_saved [GetFiles ''/photos'' (Inr (Some [FileEntry ''/photos/a.CR2'', FileEntry ''/photos/b.CR2'']))]
          (fst (convert_imgs_body (plain_host [FileEntry ''/photos/a.CR2'', FileEntry ''/photos/b.CR2''])
             ''/photos/TIFF/'' (FileEntry ''/photos/b.CR2'')
             [GetFiles ''/photos'' (Inr (Some [FileEntry ''/photos/a.CR2'', FileEntry ''/photos/b.CR2'']))])))"
proof -
  let ?L = "[FileEntry ''/photos/a.CR2'', FileEntry ''/photos/b.CR2'']"
  let ?t = "[GetFiles ''/photos'' (Inr (Some ?L))]"
  let ?same = "\<lambda>p q. final_segment p = final_segment q"
  note inst = C7_only_destination_written [where h = "plain_host ?L" and inFile = "''in.CR2''"
      and out = "''out.tif''" and same_file = "?same" and t = "?t" and f = "FileEntry ''/photos/b.CR2''"
      and d = 0 and u = "()" and e = URIError
      and d' = 1 and n = "''b.CR2''" and sub = "''/photos/TIFF/''" and dir = "''/photos''"]
  have ne1: "final_segment ''out.tif'' \<noteq> final_segment ''in.CR2''"
    by (simp add: final_segment_def)
  have ne2: "final_segment (''/photos/TIFF/'' @ ''/'' @ spec_filename ''b.CR2'') \<noteq> final_segment ''/photos/b.CR2''"
    by (simp add: final_segment_def spec_filename_def spec_base_def)
  have o: "host_open (plain_host ?L) ?t (entry_path (FileEntry ''/photos/b.CR2'')) openOptions = Inr 1"
    by (simp add: plain_host_def)
  have n: "host_decodeURI (plain_host ?L)
       (host_name (plain_host ?L)
         (?t @ [Open (entry_path (FileEntry ''/photos/b.CR2'')) openOptions (Inr 1)]) 1) = Inr ''b.CR2''"
    by (simp add: plain_host_def plain_name_def final_segment_def)
  have s1: "saved_paths (fst (convert_img (plain_host ?L) ''in.CR2'' ''out.tif'' [])) = [''out.tif'']"
    by code_simp
  have s2: "new_saved ?t (fst (convert_imgs_body (plain_host ?L) ''/photos/TIFF/''
      (FileEntry ''/photos/b.CR2'') ?t)) = [''/photos/TIFF//b.tif'']"
    by code_simp
  from inst have "final_segment ''out.tif'' \<noteq> final_segment ''in.CR2'' \<longrightarrow>
      list_all (\<lambda>p. final_segment p \<noteq> final_segment ''in.CR2'')
        (saved_paths (fst (convert_img (plain_host ?L) ''in.CR2'' ''out.tif'' [])))"
    by (elim conjE)
  with ne1 have w1: "list_all (\<lambda>p. final_segment p \<noteq> final_segment ''in.CR2'')
        (saved_paths (fst (convert_img (plain_host ?L) ''in.CR2'' ''out.tif'' [])))"
    by (rule rev_mp)
  from inst have "host_open (plain_host ?L) ?t (entry_path (FileEntry ''/photos/b.CR2'')) openOptions = Inr 1 \<and>
       host_decodeURI (plain_host ?L)
         (host_name (plain_host ?L)
           (?t @ [Open (entry_path (FileEntry ''/photos/b.CR2'')) openOptions (Inr 1)]) 1) = Inr ''b.CR2'' \<and>
       final_segment (''/photos/TIFF/'' @ ''/'' @ spec_filename ''b.CR2'')
         \<noteq> final_segment (entry_path (FileEntry ''/photos/b.CR2'')) \<longrightarrow>
       list_all (\<lambda>p. final_segment p \<noteq> final_segment (entry_path (FileEntry ''/photos/b.CR2'')))
         (new_saved ?t (fst (convert_imgs_body (plain_host ?L) ''/photos/TIFF/''
           (FileEntry ''/photos/b.CR2'') ?t)))"
    by (elim conjE)
  with o n ne2 have w2: "list_all (\<lambda>p. final_segment p \<noteq> final_segment (entry_path (FileEntry ''/photos/b.CR2'')))
        (new_saved ?t (fst (convert_imgs_body (plain_host ?L) ''/photos/TIFF/''
           (FileEntry ''/photos/b.CR2'') ?t)))"
    by simp
  from ne1 s1 w1 ne2 s2 w2 show ?thesis by simp
qed

text \<open>
  C7 as stated fails: \<^verbatim>\<open>convert_img\<close> called with the same path as source and
  destination opens that file and then saves the converted image over it.
\<close>

theorem C7_counterexample:
  "snd (convert_img (plain_host []) ''photo.tif'' ''photo.tif'' []) = Inr ()
   \<and> opened_paths (fst (convert_img (plain_host []) ''photo.tif'' ''photo.tif'' [])) = [''photo.tif'']
   \<and> saved_paths (fst (convert_img (plain_host []) ''photo.tif'' ''photo.tif'' [])) = [''photo.tif'']"
  by code_simp

lemma created_before_save_never:
  "list_all (\<lambda>e. \<not> is_FolderCreate e) t \<Longrightarrow> created_before_save False t = (saved_paths t = [])"
proof (induction t)
  case Nil
  show ?case by simp
next
  case (Cons e es)
  then show ?case by (cases e) auto
qed

text \<open>
  C4, as amended. \<^verbatim>\<open>convert_imgs\<close> never creates a folder: on any host, no call
  of a run creates one, so a run has its saves preceded by a folder creation only when
  it saves nothing; every save goes below the \<^verbatim>\<open>TIFF\<close> subfolder of the source
  folder, which has to be there already.
\<close>

theorem C4_folder_never_created:
  "\<not> list_ex is_FolderCreate (fst (convert_imgs h dir []))
   \<and> created_before_save False (fst (convert_imgs h dir [])) =
       (saved_paths (fst (convert_imgs h dir [])) = [])
   \<and> list_all (\<lambda>p. \<exists>b. p = dir @ ''/TIFF/'' @ ''/'' @ b @ ''.tif'')
        (saved_paths (fst (convert_imgs h dir [])))"
proof -
  have none: "list_all (\<lambda>e. \<not> is_FolderCreate e) (fst (convert_imgs h dir []))"
    by (rule convert_imgs_events) simp_all
  then have a: "\<not> list_ex is_FolderCreate (fst (convert_imgs h dir []))"
    by (simp add: list_all_iff list_ex_iff)
  from none have b: "created_before_save False (fst (convert_imgs h dir [])) =
       (saved_paths (fst (convert_imgs h dir [])) = [])"
    by (rule created_before_save_never)
  have c: "list_all (\<lambda>p. \<exists>b. p = dir @ ''/TIFF/'' @ ''/'' @ b @ ''.tif'')
        (saved_paths (fst (convert_imgs h dir [])))"
    by (rule saved_paths_list_all, rule convert_imgs_events) (simp_all add: outFile_def)
  from a b c show ?thesis by (intro conjI)
qed

text \<open>A batch run that saves one file and creates no folder.\<close>

theorem C4_folder_never_created_witness:
  "saved_paths (fst (convert_imgs (plain_host [FileEntry ''/photos/a.CR2'', FileEntry ''/photos/b.CR2''])
          ''/photos'' [])) = [''/photos/TIFF//b.tif'']
   \<and> \<not> list_ex is_FolderCreate
         (fst (convert_imgs (plain_host [FileEntry ''/photos/a.CR2'', FileEntry ''/photos/b.CR2''])
          ''/photos'' []))
   \<and> \<not> created_before_save False
         (fst (convert_imgs (plain_host [FileEntry ''/photos/a.CR2'', FileEntry ''/photos/b.CR2''])
          ''/photos'' []))"
proof -
  have s: "saved_paths (fst (convert_imgs (plain_host [FileEntry ''/photos/a.CR2'', FileEntry ''/photos/b.CR2''])
          ''/photos'' [])) = [''/photos/TIFF//b.tif'']" by code_simp
  from C4_folder_never_created [of "plain_host [FileEntry ''/photos/a.CR2'', FileEntry ''/photos/b.CR2'']"
      "''/photos''"] s
  show ?thesis by simp
qed

text \<open>
  C4 as stated fails: on a host where the output folder is missing, the run takes the
  listing, opens and converts the second entry, and ends with the error of the first
  \<^verbatim>\<open>saveAs\<close>; no folder was created before it.
\<close>

theorem C4_counterexample:
  "fst (convert_imgs (missing_folder_host [FileEntry ''/photos/a.CR2'', FileEntry ''/photos/b.CR2''])
          ''/photos'' []) =
     [GetFiles ''/photos'' (Inr (Some [FileEntry ''/photos/a.CR2'', FileEntry ''/photos/b.CR2''])),
      Open ''/photos/b.CR2'' \<lparr>colorSpace = Some SRGB, bitsPerChannel = Some SIXTEEN\<rparr> (Inr 1),
      ConvertProfile 1 ''sRGB IEC61966-2.1'' RELATIVECOLORIMETRIC True True (Inr ()),
      SaveAs 1 ''/photos/TIFF//b.tif''
        \<lparr>embedColorProfile = Some True, imageCompression = Some TIFFLZW\<rparr> True
        (Inl (HostError ''folder does not exist''))]
   \<and> snd (convert_imgs (missing_folder_host [FileEntry ''/photos/a.CR2'', FileEntry ''/photos/b.CR2''])
          ''/photos'' []) = Inl (HostError ''folder does not exist'')
   \<and> \<not> created_before_save False
         (fst (convert_imgs (missing_folder_host [FileEntry ''/photos/a.CR2'', FileEntry ''/photos/b.CR2''])
          ''/photos'' []))"
  by code_simp



text \<open>
  C10. The derivation is not injective: \<^verbatim>\<open>a.b.CR2\<close> and \<^verbatim>\<open>a.c.CR2\<close> have the
  same base name and so the same destination. A batch run on a listing of three files,
  these two last, opens both and saves both to \<^verbatim>\<open>/photos/TIFF//a.tif\<close>: one
  destination for three files.
\<close>

theorem C10_not_injective:
  "''a.b.CR2'' \<noteq> ''a.c.CR2''
   \<and> baseName ''a.b.CR2'' = baseName ''a.c.CR2''
   \<and> outFile sub (Some (spec_base ''a.b.CR2'')) = outFile sub (Some (spec_base ''a.c.CR2''))
   \<and> \<not> inj baseName
   \<and> snd (convert_imgs (plain_host [FileEntry ''/photos/x.CR2'', FileEntry ''/photos/a.b.CR2'',
                                     FileEntry ''/photos/a.c.CR2'']) ''/photos'' []) = Inr ()
   \<and> opened_paths (fst (convert_imgs (plain_host [FileEntry ''/photos/x.CR2'',
        FileEntry ''/photos/a.b.CR2'', FileEntry ''/photos/a.c.CR2'']) ''/photos'' []))
       = [''/photos/a.b.CR2'', ''/photos/a.c.CR2'']
   \<and> saved_paths (fst (convert_imgs (plain_host [FileEntry ''/photos/x.CR2'',
        FileEntry ''/photos/a.b.CR2'', FileEntry ''/photos/a.c.CR2'']) ''/photos'' []))
       = [''/photos/TIFF//a.tif'', ''/photos/TIFF//a.tif'']
   \<and> length (remdups (saved_paths (fst (convert_imgs (plain_host [FileEntry ''/photos/x.CR2'',
        FileEntry ''/photos/a.b.CR2'', FileEntry ''/photos/a.c.CR2'']) ''/photos'' [])))) = 1"
proof -
  have ne: "''a.b.CR2'' \<noteq> ''a.c.CR2''" by simp
  have same: "baseName ''a.b.CR2'' = baseName ''a.c.CR2''"
    by (simp add: baseName_spec spec_base_def final_segment_def)
  have out: "outFile sub (Some (spec_base ''a.b.CR2'')) = outFile sub (Some (spec_base ''a.c.CR2''))"
    by (simp add: spec_base_def final_segment_def)
  have ninj: "\<not> inj baseName"
  proof
    assume "inj baseName"
    then have "baseName ''a.b.CR2'' = baseName ''a.c.CR2'' \<Longrightarrow> ''a.b.CR2'' = ''a.c.CR2''"
      by (rule injD)
    from this [OF same] show False by simp
  qed
  have r1: "snd (convert_imgs (plain_host [FileEntry ''/photos/x.CR2'', FileEntry ''/photos/a.b.CR2'',
                                     FileEntry ''/photos/a.c.CR2'']) ''/photos'' []) = Inr ()"
    by code_simp
  have r2: "opened_paths (fst (convert_imgs (plain_host [FileEntry ''/photos/x.CR2'',
        FileEntry ''/photos/a.b.CR2'', FileEntry ''/photos/a.c.CR2'']) ''/photos'' []))
       = [''/photos/a.b.CR2'', ''/photos/a.c.CR2'']"
    by code_simp
  have r3: "saved_paths (fst (convert_imgs (plain_host [FileEntry ''/photos/x.CR2'',
        FileEntry ''/photos/a.b.CR2'', FileEntry ''/photos/a.c.CR2'']) ''/photos'' []))
       = [''/photos/TIFF//a.tif'', ''/photos/TIFF//a.tif'']"
    by code_simp
  have r4: "length (remdups (saved_paths (fst (convert_imgs (plain_host [FileEntry ''/photos/x.CR2'',
        FileEntry ''/photos/a.b.CR2'', FileEntry ''/photos/a.c.CR2'']) ''/photos'' [])))) = 1"
    by (simp only: r3) simp
  from ne same out ninj r1 r2 r3 r4 show ?thesis by (intro conjI)
qed

text \<open>
  C2, as amended. The destination file name is derived from the decoded document
  name, \<^verbatim>\<open>decodeURI(doc.name)\<close>: for every such name the base name is its final
  segment cut at the first dot, and the destination is the output folder, a slash,
  that base name and \<^verbatim>\<open>.tif\<close>; \<^verbatim>\<open>photo.CR2\<close> gives \<^verbatim>\<open>photo.tif\<close>,
  \<^verbatim>\<open>a.b.c.CR2\<close> gives \<^verbatim>\<open>a.tif\<close> and \<^verbatim>\<open>noext\<close> gives \<^verbatim>\<open>noext.tif\<close>.
  A pass through the loop body whose document is opened, whose name decodes to \<open>n\<close>
  and whose profile is converted saves to exactly that destination for \<open>n\<close>; when
  \<^verbatim>\<open>decodeURI\<close> throws, the pass ends with that error after the \<^verbatim>\<open>open\<close>.
\<close>

theorem C2_destination_filename:
  "(\<exists>b. baseName n = Inr b \<and> outFile sub b = sub @ ''/'' @ spec_filename n)
   \<and> (\<exists>b. baseName ''photo.CR2'' = Inr b \<and> outFile sub b = sub @ ''/'' @ ''photo.tif'')
   \<and> (\<exists>b. baseName ''a.b.c.CR2'' = Inr b \<and> outFile sub b = sub @ ''/'' @ ''a.tif'')
   \<and> (\<exists>b. baseName ''noext'' = Inr b \<and> outFile sub b = sub @ ''/'' @ ''noext.tif'')
   \<and> (host_open h t (entry_path f) openOptions = Inr d \<and>
       host_decodeURI h (host_name h (t @ [Open (entry_path f) openOptions (Inr d)]) d) = Inr n \<and>
       host_convertProfile h (t @ [Open (entry_path f) openOptions (Inr d)]) d
         ''sRGB IEC61966-2.1'' RELATIVECOLORIMETRIC True True = Inr u \<longrightarrow>
       saved_paths (fst (convert_imgs_body h sub f t)) =
         saved_paths t @ [sub @ ''/'' @ spec_filename n])
   \<and> (host_open h t (entry_path f) openOptions = Inr d \<and>
       host_decodeURI h (host_name h (t @ [Open (entry_path f) openOptions (Inr d)]) d) = Inl e \<longrightarrow>
       convert_imgs_body h sub f t = (t @ [Open (entry_path f) openOptions (Inr d)], Inl e))"
proof -
  have ex: "spec_filename ''photo.CR2'' = ''photo.tif''"
    "spec_filename ''a.b.c.CR2'' = ''a.tif''"
    "spec_filename ''noext'' = ''noext.tif''"
    by (simp_all add: spec_filename_def spec_base_def final_segment_def)
  have gen: "\<exists>b. baseName q = Inr b \<and> outFile sub b = sub @ ''/'' @ spec_filename q" for q
    by (simp add: baseName_spec outFile_def js_string_def spec_filename_def)
  have g0: "\<exists>b. baseName n = Inr b \<and> outFile sub b = sub @ ''/'' @ spec_filename n"
    by (rule gen)
  have g1: "\<exists>b. baseName ''photo.CR2'' = Inr b \<and> outFile sub b = sub @ ''/'' @ ''photo.tif''"
    using gen [of "''photo.CR2''"] by (simp only: ex)
  have g2: "\<exists>b. baseName ''a.b.c.CR2'' = Inr b \<and> outFile sub b = sub @ ''/'' @ ''a.tif''"
    using gen [of "''a.b.c.CR2''"] by (simp only: ex)
  have g3: "\<exists>b. baseName ''noext'' = Inr b \<and> outFile sub b = sub @ ''/'' @ ''noext.tif''"
    using gen [of "''noext''"] by (simp only: ex)
  have run: "host_open h t (entry_path f) openOptions = Inr d \<and>
       host_decodeURI h (host_name h (t @ [Open (entry_path f) openOptions (Inr d)]) d) = Inr n \<and>
       host_convertProfile h (t @ [Open (entry_path f) openOptions (Inr d)]) d
         ''sRGB IEC61966-2.1'' RELATIVECOLORIMETRIC True True = Inr u \<longrightarrow>
       saved_paths (fst (convert_imgs_body h sub f t)) =
         saved_paths t @ [sub @ ''/'' @ spec_filename n]"
    by (simp add: convert_imgs_body_saved)
  have thrown: "host_open h t (entry_path f) openOptions = Inr d \<and>
       host_decodeURI h (host_name h (t @ [Open (entry_path f) openOptions (Inr d)]) d) = Inl e \<longrightarrow>
       convert_imgs_body h sub f t = (t @ [Open (entry_path f) openOptions (Inr d)], Inl e)"
    by (simp add: convert_imgs_body_def Let_def)
  from g0 g1 g2 g3 run thrown show ?thesis by (intro conjI)
qed

text \<open>A batch run whose second entry is \<^verbatim>\<open>/photos/photo.CR2\<close>.\<close>

theorem C2_destination_filename_witness:
  "host_open (plain_host [FileEntry ''/photos/a.CR2'', FileEntry ''/photos/photo.CR2''])
     [GetFiles ''/photos'' (Inr (Some [FileEntry ''/photos/a.CR2'', FileEntry ''/photos/photo.CR2'']))]
     ''/photos/photo.CR2'' openOptions = Inr 1
   \<and> host_decodeURI (plain_host [FileEntry ''/photos/a.CR2'', FileEntry ''/photos/photo.CR2''])
       (host_name (plain_host [FileEntry ''/photos/a.CR2'', FileEntry ''/photos/photo.CR2''])
         [GetFiles ''/photos'' (Inr (Some [FileEntry ''/photos/a.CR2'', FileEntry ''/photos/photo.CR2''])),
          Open ''/photos/photo.CR2'' openOptions (Inr 1)] 1) = Inr ''photo.CR2''
   \<and> saved_paths (fst (convert_imgs_body
        (plain_host [FileEntry ''/photos/a.CR2'', FileEntry ''/photos/photo.CR2'']) ''/photos/TIFF/''
        (FileEntry ''/photos/photo.CR2'')
        [GetFiles ''/photos'' (Inr (Some [FileEntry ''/photos/a.CR2'', FileEntry ''/photos/photo.CR2'']))]))
       = [''/photos/TIFF//photo.tif'']
   \<and> saved_paths (fst (convert_imgs
        (plain_host [FileEntry ''/photos/a.CR2'', FileEntry ''/photos/photo.CR2'']) ''/photos'' []))
       = [''/photos/TIFF//photo.tif'']"
proof -
  let ?L = "[FileEntry ''/photos/a.CR2'', FileEntry ''/photos/photo.CR2'']"
  let ?t = "[GetFiles ''/photos'' (Inr (Some ?L))]"
  have o: "host_open (plain_host ?L) ?t (entry_path (FileEntry ''/photos/photo.CR2'')) openOptions = Inr 1"
    by (simp add: plain_host_def)
  have n: "host_decodeURI (plain_host ?L)
       (host_name (plain_host ?L)
         (?t @ [Open (entry_path (FileEntry ''/photos/photo.CR2'')) openOptions (Inr 1)]) 1) = Inr ''photo.CR2''"
    by (simp add: plain_host_def plain_name_def final_segment_def)
  have c: "host_convertProfile (plain_host ?L)
       (?t @ [Open (entry_path (FileEntry ''/photos/photo.CR2'')) openOptions (Inr 1)]) 1
         ''sRGB IEC61966-2.1'' RELATIVECOLORIMETRIC True True = Inr ()"
    by (simp add: plain_host_def)
  have name: "spec_filename ''photo.CR2'' = ''photo.tif''"
    by (simp add: spec_filename_def spec_base_def final_segment_def)
  from C2_destination_filename [where h = "plain_host ?L" and t = ?t
      and f = "FileEntry ''/photos/photo.CR2''" and d = 1 and n = "''photo.CR2''" and u = "()"
      and sub = "''/photos/TIFF/''"] o n c
  have body: "saved_paths (fst (convert_imgs_body (plain_host ?L) ''/photos/TIFF/''
        (FileEntry ''/photos/photo.CR2'') ?t)) = saved_paths ?t @ [''/photos/TIFF/'' @ ''/'' @ spec_filename ''photo.CR2'']"
    by blast
  have run: "saved_paths (fst (convert_imgs (plain_host ?L) ''/photos'' [])) = [''/photos/TIFF//photo.tif'']"
    by code_simp
  from o n body run show ?thesis by (simp add: name)
qed

text \<open>
  C2 as stated fails on source paths with a percent sign. The final segment of
  \<^verbatim>\<open>/photos/a%2Eb.CR2\<close> cut at its first dot gives \<^verbatim>\<open>a%2Eb.tif\<close>, but the run
  decodes the name to \<^verbatim>\<open>a.b.CR2\<close> and saves \<^verbatim>\<open>a.tif\<close>; for
  \<^verbatim>\<open>/photos/100%.CR2\<close> the decoding throws and nothing is saved.
\<close>

theorem C2_counterexample:
  "spec_filename ''/photos/a%2Eb.CR2'' = ''a%2Eb.tif''
   \<and> opened_paths (fst (convert_imgs
        (uri_host [FileEntry ''/photos/x.CR2'', FileEntry ''/photos/a%2Eb.CR2'']) ''/photos'' []))
       = [''/photos/a%2Eb.CR2'']
   \<and> saved_paths (fst (convert_imgs
        (uri_host [FileEntry ''/photos/x.CR2'', FileEntry ''/photos/a%2Eb.CR2'']) ''/photos'' []))
       = [''/photos/TIFF//a.tif'']
   \<and> opened_paths (fst (convert_imgs
        (uri_host [FileEntry ''/photos/x.CR2'', FileEntry ''/photos/100%.CR2'']) ''/photos'' []))
       = [''/photos/100%.CR2'']
   \<and> snd (convert_imgs
        (uri_host [FileEntry ''/photos/x.CR2'', FileEntry ''/photos/100%.CR2'']) ''/photos'' [])
       = Inl URIError
   \<and> saved_paths (fst (convert_imgs
        (uri_host [FileEntry ''/photos/x.CR2'', FileEntry ''/photos/100%.CR2'']) ''/photos'' []))
       = []"
  by code_simp

end
